theory Spec2Isabelle
  imports Complex_Main
begin

section \<open>GullyLink: vendor table, connection registry and realtime fan-out\<close>

text \<open>
  A shallow embedding of \<^verbatim>\<open>src/gullylink/main.py\<close>: the module-level tables
  \<^verbatim>\<open>VENDORS\<close> and \<^verbatim>\<open>MENU\<close>, the class \<^verbatim>\<open>ConnectionManager\<close>
  (\<^verbatim>\<open>connect\<close>, \<^verbatim>\<open>disconnect\<close>, \<^verbatim>\<open>broadcast\<close>), the route
  \<^verbatim>\<open>place_order\<close> and the channel handler \<^verbatim>\<open>websocket_endpoint\<close>.

  Conventions of the model:
  \<^item> Python dictionaries that travel as JSON are values of the datatype \<open>json\<close>; a vendor
    entry, whose keys are fixed, is a record; the two module-level tables are maps.
  \<^item> A Python exception is a value of \<open>exn\<close>. An operation takes the program state and
    returns a pair: \<open>Inl e\<close> (raised \<open>e\<close>) or \<open>Inr v\<close> (returned \<open>v\<close>), and the state
    at that moment, so that mutations done before a raise stay visible.
  \<^item> What lies outside the module is a parameter: the outcome of a socket write
    (\<open>transport\<close>), of the handshake, of each receive (\<open>event\<close>), and the entropy
    consumed by \<^verbatim>\<open>random.randint\<close>.
  \<^item> A handler that waits for the next message is a handler whose list of events is
    used up: its result is \<open>None\<close>.
  \<^item> Each operation runs without another task interleaving at its suspension points.
\<close>

subsection \<open>Values, exceptions, state\<close>

text \<open>
  JSON values as \<^verbatim>\<open>receive_json\<close> yields them and \<^verbatim>\<open>send_json\<close> takes them.
  Numbers are only stored and forwarded by the program, never computed with. Strings
  are byte strings (UTF-8).
\<close>

datatype json =
    JNull
  | JBool bool
  | JInt int
  | JFloat real
  | JStr string
  | JArr "json list"
  | JObj "(string \<times> json) list"

datatype exn =
    WebSocketDisconnect
  | ValueError
  | KeyError string
  | TypeError
  | RuntimeError

text \<open>A \<^verbatim>\<open>WebSocket\<close> object; equality is object identity.\<close>

type_synonym ws = nat

text \<open>An entry of \<^verbatim>\<open>VENDORS\<close>: a dictionary with the seven keys below.\<close>

record vendor =
  id' :: string
  name :: string
  lat :: json
  lng :: json
  icon :: string
  category :: string
  orders :: "json list"

text \<open>The pydantic model \<^verbatim>\<open>Order\<close>, the validated body of \<^verbatim>\<open>POST /api/order\<close>.\<close>

record Order =
  vendor_id :: string
  item :: string
  customer_lat :: real
  customer_lng :: real

text \<open>
  The shared state of the process: the two tables and \<^verbatim>\<open>manager.active_connections\<close>.
  Two trace fields record the effects on the outside world: \<open>broadcasts\<close> lists the
  messages \<^verbatim>\<open>broadcast\<close> was called with, and \<open>sent\<close> lists every completed
  \<^verbatim>\<open>send_json\<close> as a pair of connection and message, both in order of occurrence.
\<close>

record state =
  VENDORS :: "string \<rightharpoonup> vendor"
  MENU :: "string \<rightharpoonup> json"
  active_connections :: "ws list"
  broadcasts :: "json list"
  sent :: "(ws \<times> json) list"

text \<open>
  The outcome of writing to a connection: \<open>None\<close> when the write completes, \<open>Some e\<close>
  when \<^verbatim>\<open>send_json\<close> raises \<open>e\<close>.
\<close>

type_synonym transport = "ws \<Rightarrow> exn option"

subsection \<open>The tables at start-up\<close>

definition VENDORS0 :: "string \<rightharpoonup> vendor" where
  "VENDORS0 =
    [''v1'' \<mapsto> \<lparr>id' = ''v1'', name = ''Chai Point'', lat = JFloat 28.6139, lng = JFloat 77.2090,
        icon = [CHR 0xE2, CHR 0x98, CHR 0x95], category = ''Beverages'', orders = []\<rparr>,
     ''v2'' \<mapsto> \<lparr>id' = ''v2'', name = ''Burger Singh'', lat = JFloat 28.6129, lng = JFloat 77.2100,
        icon = [CHR 0xF0, CHR 0x9F, CHR 0x8D, CHR 0x94], category = ''Fast Food'', orders = []\<rparr>,
     ''v3'' \<mapsto> \<lparr>id' = ''v3'', name = ''Sharma Sweets'', lat = JFloat 28.6145, lng = JFloat 77.2080,
        icon = [CHR 0xF0, CHR 0x9F, CHR 0x8D, CHR 0xAC], category = ''Sweets'', orders = []\<rparr>,
     ''v4'' \<mapsto> \<lparr>id' = ''v4'', name = ''Pizza Hut Mobile'', lat = JFloat 28.6150, lng = JFloat 77.2110,
        icon = [CHR 0xF0, CHR 0x9F, CHR 0x8D, CHR 0x95], category = ''Italian'', orders = []\<rparr>,
     ''v5'' \<mapsto> \<lparr>id' = ''v5'', name = ''Gully Momos'', lat = JFloat 28.6110, lng = JFloat 77.2070,
        icon = [CHR 0xF0, CHR 0x9F, CHR 0xA5, CHR 0x9F], category = ''Street Food'', orders = []\<rparr>]"

definition menu_entry :: "string \<Rightarrow> int \<Rightarrow> json" where
  "menu_entry i p = JObj [(''item'', JStr i), (''price'', JInt p)]"

definition MENU0 :: "string \<rightharpoonup> json" where
  "MENU0 =
    [''v1'' \<mapsto> JArr [menu_entry ''Masala Chai'' 20, menu_entry ''Bun Maska'' 40],
     ''v2'' \<mapsto> JArr [menu_entry ''Veggie Burger'' 80, menu_entry ''Fries'' 60],
     ''v3'' \<mapsto> JArr [menu_entry ''Rasgulla'' 30, menu_entry ''Samosa'' 15],
     ''v4'' \<mapsto> JArr [menu_entry ''Margherita Pizza'' 150, menu_entry ''Garlic Bread'' 90],
     ''v5'' \<mapsto> JArr [menu_entry ''Steamed Momos'' 50, menu_entry ''Fried Momos'' 60]]"

text \<open>The state once the module is loaded: no connection, nothing sent.\<close>

definition init_state :: state where
  "init_state = \<lparr>VENDORS = VENDORS0, MENU = MENU0, active_connections = [],
     broadcasts = [], sent = []\<rparr>"

subsection \<open>Python primitives the module relies on\<close>

text \<open>
  \<^verbatim>\<open>d[k]\<close> for a string key \<open>k\<close>: on a dictionary the value, or \<^verbatim>\<open>KeyError\<close>;
  on any other JSON value \<^verbatim>\<open>TypeError\<close>.
\<close>

definition subscript :: "json \<Rightarrow> string \<Rightarrow> exn + json" where
  "subscript d k =
    (case d of
       JObj kvs \<Rightarrow> (case map_of kvs k of None \<Rightarrow> Inl (KeyError k) | Some v \<Rightarrow> Inr v)
     | _ \<Rightarrow> Inl TypeError)"

text \<open>
  \<^verbatim>\<open>list.remove(x)\<close>: deletes the first element equal to \<open>x\<close>; \<open>None\<close> stands for the
  \<^verbatim>\<open>ValueError\<close> raised when there is none.
\<close>

fun list_remove :: "'a \<Rightarrow> 'a list \<Rightarrow> 'a list option" where
  "list_remove x [] = None"
| "list_remove x (y # ys) =
    (if y = x then Some ys else map_option (\<lambda>zs. y # zs) (list_remove x ys))"

text \<open>
  \<^verbatim>\<open>random.randint(a, b)\<close> for \<open>a \<le> b\<close> is \<open>a\<close> plus a number below \<open>b - a + 1\<close>
  obtained from the generator; the generator's output is the parameter \<open>entropy\<close>, and
  every number below the bound is obtained for some entropy.
\<close>

definition randbelow :: "nat \<Rightarrow> nat \<Rightarrow> nat" where
  "randbelow n entropy = entropy mod n"

definition randint :: "int \<Rightarrow> int \<Rightarrow> nat \<Rightarrow> int" where
  "randint a b entropy = a + int (randbelow (nat (b - a + 1)) entropy)"

subsection \<open>ConnectionManager\<close>

text \<open>
  \<^verbatim>\<open>connect\<close>: await the handshake, then append. \<open>accepted\<close> is the outcome of
  \<^verbatim>\<open>websocket.accept()\<close>.
\<close>

definition connect :: "exn option \<Rightarrow> ws \<Rightarrow> state \<Rightarrow> (exn + unit) \<times> state" where
  "connect accepted websocket s =
    (case accepted of
       Some e \<Rightarrow> (Inl e, s)
     | None \<Rightarrow> (Inr (), s\<lparr>active_connections := active_connections s @ [websocket]\<rparr>))"

text \<open>\<^verbatim>\<open>disconnect\<close>: \<^verbatim>\<open>self.active_connections.remove(websocket)\<close>.\<close>

definition disconnect :: "ws \<Rightarrow> state \<Rightarrow> (exn + unit) \<times> state" where
  "disconnect websocket s =
    (case list_remove websocket (active_connections s) of
       None \<Rightarrow> (Inl ValueError, s)
     | Some cs \<Rightarrow> (Inr (), s\<lparr>active_connections := cs\<rparr>))"

text \<open>\<^verbatim>\<open>connection.send_json(message)\<close>, recorded in \<open>sent\<close> when it completes.\<close>

definition send_json :: "transport \<Rightarrow> ws \<Rightarrow> json \<Rightarrow> state \<Rightarrow> (exn + unit) \<times> state" where
  "send_json tr connection message s =
    (case tr connection of
       Some e \<Rightarrow> (Inl e, s)
     | None \<Rightarrow> (Inr (), s\<lparr>sent := sent s @ [(connection, message)]\<rparr>))"

text \<open>
  The \<^verbatim>\<open>for\<close> loop of \<^verbatim>\<open>broadcast\<close> over the connections still to visit: an
  exception raised by a send leaves the loop and the function.
\<close>

fun broadcast_loop :: "transport \<Rightarrow> json \<Rightarrow> ws list \<Rightarrow> state \<Rightarrow> (exn + unit) \<times> state" where
  "broadcast_loop tr message [] s = (Inr (), s)"
| "broadcast_loop tr message (connection # rest) s =
    (case send_json tr connection message s of
       (Inl e, s') \<Rightarrow> (Inl e, s')
     | (Inr _, s') \<Rightarrow> broadcast_loop tr message rest s')"

definition broadcast :: "transport \<Rightarrow> json \<Rightarrow> state \<Rightarrow> (exn + unit) \<times> state" where
  "broadcast tr message s =
    broadcast_loop tr message (active_connections s) (s\<lparr>broadcasts := broadcasts s @ [message]\<rparr>)"

subsection \<open>Order placement\<close>

text \<open>\<^verbatim>\<open>VENDORS[k]["orders"].append(order_data)\<close>.\<close>

definition orders_append :: "string \<Rightarrow> json \<Rightarrow> state \<Rightarrow> exn + state" where
  "orders_append k order_data s =
    (case VENDORS s k of
       None \<Rightarrow> Inl (KeyError k)
     | Some v \<Rightarrow> Inr (s\<lparr>VENDORS := (VENDORS s)(k \<mapsto> v\<lparr>orders := orders v @ [order_data]\<rparr>)\<rparr>))"

text \<open>The dictionary \<^verbatim>\<open>order_data\<close> built by \<^verbatim>\<open>place_order\<close>.\<close>

definition order_data_of :: "nat \<Rightarrow> Order \<Rightarrow> json" where
  "order_data_of entropy ord =
    JObj [(''id'', JInt (randint 1000 9999 entropy)),
          (''item'', JStr (item ord)),
          (''status'', JStr ''Pending''),
          (''lat'', JFloat (customer_lat ord)),
          (''lng'', JFloat (customer_lng ord))]"

definition place_order :: "transport \<Rightarrow> nat \<Rightarrow> Order \<Rightarrow> state \<Rightarrow> (exn + json) \<times> state" where
  "place_order tr entropy ord s =
    (if VENDORS s (vendor_id ord) \<noteq> None then
       (let order_data = order_data_of entropy ord in
        case orders_append (vendor_id ord) order_data s of
          Inl e \<Rightarrow> (Inl e, s)
        | Inr s1 \<Rightarrow>
           (case broadcast tr
                   (JObj [(''type'', JStr ''new_order''),
                          (''vendor_id'', JStr (vendor_id ord)),
                          (''order'', order_data)]) s1 of
              (Inl e, s2) \<Rightarrow> (Inl e, s2)
            | (Inr _, s2) \<Rightarrow>
               (case subscript order_data ''id'' of
                  Inl e \<Rightarrow> (Inl e, s2)
                | Inr i \<Rightarrow> (Inr (JObj [(''status'', JStr ''Order Placed''), (''order_id'', i)]), s2))))
     else (Inr (JObj [(''status'', JStr ''Vendor not found'')]), s))"

subsection \<open>The channel handler\<close>

text \<open>\<^verbatim>\<open>VENDORS[k]['lat'] = v\<close> and \<^verbatim>\<open>VENDORS[k]['lng'] = v\<close>.\<close>

definition set_lat :: "string \<Rightarrow> json \<Rightarrow> state \<Rightarrow> exn + state" where
  "set_lat k v s =
    (case VENDORS s k of
       None \<Rightarrow> Inl (KeyError k)
     | Some r \<Rightarrow> Inr (s\<lparr>VENDORS := (VENDORS s)(k \<mapsto> r\<lparr>lat := v\<rparr>)\<rparr>))"

definition set_lng :: "string \<Rightarrow> json \<Rightarrow> state \<Rightarrow> exn + state" where
  "set_lng k v s =
    (case VENDORS s k of
       None \<Rightarrow> Inl (KeyError k)
     | Some r \<Rightarrow> Inr (s\<lparr>VENDORS := (VENDORS s)(k \<mapsto> r\<lparr>lng := v\<rparr>)\<rparr>))"

text \<open>
  \<^verbatim>\<open>vendor_id in VENDORS\<close> for a JSON value: a list or a dictionary is unhashable
  (\<^verbatim>\<open>TypeError\<close>); a string is looked up; any other value is hashable and equals no key.
  The result carries the key found. (\<open>vid\<close> is the handler's local \<^verbatim>\<open>vendor_id\<close>.)
\<close>

definition in_VENDORS :: "json \<Rightarrow> state \<Rightarrow> exn + string option" where
  "in_VENDORS vid s =
    (case vid of
       JStr k \<Rightarrow> Inr (if VENDORS s k \<noteq> None then Some k else None)
     | JArr _ \<Rightarrow> Inl TypeError
     | JObj _ \<Rightarrow> Inl TypeError
     | _ \<Rightarrow> Inr None)"

text \<open>
  The body of the \<^verbatim>\<open>while True\<close> loop after \<^verbatim>\<open>receive_json\<close> has returned
  \<open>data\<close>. In an assignment the right-hand side is evaluated before the target.
\<close>

definition handle_message :: "transport \<Rightarrow> json \<Rightarrow> state \<Rightarrow> (exn + unit) \<times> state" where
  "handle_message tr data s =
    (case subscript data ''type'' of
       Inl e \<Rightarrow> (Inl e, s)
     | Inr t \<Rightarrow>
        if t = JStr ''location_update'' then
          (case subscript data ''id'' of
             Inl e \<Rightarrow> (Inl e, s)
           | Inr vid \<Rightarrow>
              (case in_VENDORS vid s of
                 Inl e \<Rightarrow> (Inl e, s)
               | Inr None \<Rightarrow> (Inr (), s)
               | Inr (Some k) \<Rightarrow>
                  (case subscript data ''lat'' of
                     Inl e \<Rightarrow> (Inl e, s)
                   | Inr new_lat \<Rightarrow>
                      (case set_lat k new_lat s of
                         Inl e \<Rightarrow> (Inl e, s)
                       | Inr s1 \<Rightarrow>
                          (case subscript data ''lng'' of
                             Inl e \<Rightarrow> (Inl e, s1)
                           | Inr new_lng \<Rightarrow>
                              (case set_lng k new_lng s1 of
                                 Inl e \<Rightarrow> (Inl e, s1)
                               | Inr s2 \<Rightarrow> broadcast tr data s2))))))
        else if t = JStr ''order_update'' then broadcast tr data s
        else (Inr (), s))"

text \<open>
  What one \<^verbatim>\<open>await websocket.receive_json()\<close> does: raise, or return data; with the
  data comes the transport in force while the handler deals with them.
\<close>

datatype event = Receive json transport | ReceiveRaises exn

text \<open>
  The \<^verbatim>\<open>while True\<close> loop on the events the connection will deliver. The loop has no
  exit but an exception: \<open>Some e\<close> is the exception that ended it, and \<open>None\<close> says that
  the events are used up and the handler is suspended in \<^verbatim>\<open>receive_json\<close>.
\<close>

fun handler_loop :: "event list \<Rightarrow> state \<Rightarrow> exn option \<times> state" where
  "handler_loop [] s = (None, s)"
| "handler_loop (ReceiveRaises e # evs) s = (Some e, s)"
| "handler_loop (Receive data tr # evs) s =
    (case handle_message tr data s of
       (Inl e, s') \<Rightarrow> (Some e, s')
     | (Inr _, s') \<Rightarrow> handler_loop evs s')"

text \<open>How a finished handler ended: by returning, or with an uncaught exception.\<close>

datatype exit = Returned | Raised exn

text \<open>
  \<^verbatim>\<open>websocket_endpoint\<close>: connect, run the loop inside \<^verbatim>\<open>try\<close>, and on
  \<^verbatim>\<open>WebSocketDisconnect\<close> (the only exception the \<^verbatim>\<open>except\<close> clause names)
  disconnect. \<open>None\<close>: the handler has not finished.
\<close>

definition websocket_endpoint ::
    "exn option \<Rightarrow> ws \<Rightarrow> event list \<Rightarrow> state \<Rightarrow> exit option \<times> state" where
  "websocket_endpoint accepted websocket evs s =
    (case connect accepted websocket s of
       (Inl e, s1) \<Rightarrow> (Some (Raised e), s1)
     | (Inr _, s1) \<Rightarrow>
        (case handler_loop evs s1 of
           (None, s2) \<Rightarrow> (None, s2)
         | (Some WebSocketDisconnect, s2) \<Rightarrow>
            (case disconnect websocket s2 of
               (Inl e, s3) \<Rightarrow> (Some (Raised e), s3)
             | (Inr _, s3) \<Rightarrow> (Some Returned, s3))
         | (Some e, s2) \<Rightarrow> (Some (Raised e), s2)))"

section \<open>Properties\<close>

subsection \<open>Auxiliary facts\<close>

lemma list_remove_absent: "x \<notin> set xs \<Longrightarrow> list_remove x xs = None"
  by (induction xs) auto

lemma list_remove_append_fresh: "x \<notin> set xs \<Longrightarrow> list_remove x (xs @ [x]) = Some xs"
  by (induction xs) auto

lemma broadcast_loop_all_delivered:
  "\<forall>c\<in>set cs. tr c = None \<Longrightarrow>
   broadcast_loop tr m cs s = (Inr (), s\<lparr>sent := sent s @ map (\<lambda>c. (c, m)) cs\<rparr>)"
  by (induction cs arbitrary: s) (auto simp: send_json_def)

lemma broadcast_loop_first_failure:
  "\<forall>c\<in>set pre. tr c = None \<Longrightarrow> tr k = Some e \<Longrightarrow>
   broadcast_loop tr m (pre @ k # post) s = (Inl e, s\<lparr>sent := sent s @ map (\<lambda>c. (c, m)) pre\<rparr>)"
  by (induction pre arbitrary: s) (auto simp: send_json_def)

lemma broadcast_loop_frame:
  "broadcast_loop tr m cs s = (r, s') \<Longrightarrow>
   VENDORS s' = VENDORS s \<and> MENU s' = MENU s \<and> active_connections s' = active_connections s
   \<and> broadcasts s' = broadcasts s"
  by (induction cs arbitrary: s) (auto simp: send_json_def split: option.splits)

lemma broadcast_frame:
  "broadcast tr m s = (r, s') \<Longrightarrow>
   VENDORS s' = VENDORS s \<and> MENU s' = MENU s \<and> active_connections s' = active_connections s
   \<and> broadcasts s' = broadcasts s @ [m]"
  unfolding broadcast_def by (drule broadcast_loop_frame) simp

lemma handle_message_registry:
  "handle_message tr data s = (r, s') \<Longrightarrow> active_connections s' = active_connections s"
  unfolding handle_message_def set_lat_def set_lng_def
  by (auto split: sum.splits option.splits if_splits dest!: broadcast_frame)

lemma handler_loop_registry:
  "handler_loop evs s = (r, s') \<Longrightarrow> active_connections s' = active_connections s"
proof (induction evs s rule: handler_loop.induct)
  case (3 data tr evs s)
  then show ?case
    by (auto split: prod.splits sum.splits dest: handle_message_registry)
qed auto

lemma randint_order_range: "1000 \<le> randint 1000 9999 entropy \<and> randint 1000 9999 entropy \<le> 9999"
proof -
  have "entropy mod 9000 < 9000" by simp
  then show ?thesis by (simp add: randint_def randbelow_def)
qed

lemma place_order_success:
  assumes "fst (place_order tr entropy ord s) = Inr r"
    and "subscript r ''status'' = Inr (JStr ''Order Placed'')"
  shows "r = JObj [(''status'', JStr ''Order Placed''),
                   (''order_id'', JInt (randint 1000 9999 entropy))]"
  using assms unfolding place_order_def order_data_of_def
  by (auto simp: Let_def subscript_def split: if_splits sum.splits prod.splits)

lemma connect_registers:
  "connect None websocket s = (r, s') \<Longrightarrow> websocket \<in> set (active_connections s')"
  by (auto simp: connect_def)

subsection \<open>Removing a connection that is not registered\<close>

text \<open>
  Claim C3 says that \<^verbatim>\<open>disconnect\<close> with a connection that is not in the registry
  leaves the registry unchanged and raises nothing. \<^verbatim>\<open>list.remove\<close> raises
  \<^verbatim>\<open>ValueError\<close> for an absent element: with connections 1 and 2 registered,
  disconnecting connection 7 raises.
\<close>

theorem disconnect_absent_counterexample:
  "fst (disconnect 7 (init_state\<lparr>active_connections := [1, 2]\<rparr>)) = Inl ValueError"
  by (simp add: disconnect_def)

text \<open>
  C3, as the code has it: \<^verbatim>\<open>disconnect\<close> with a connection that is not in the
  registry leaves the whole state, the registry included, unchanged and raises
  \<^verbatim>\<open>ValueError\<close>.
\<close>

theorem disconnect_absent_raises:
  "websocket \<notin> set (active_connections s) \<Longrightarrow> disconnect websocket s = (Inl ValueError, s)"
  by (simp add: disconnect_def list_remove_absent)

theorem disconnect_absent_raises_witness:
  "(7::nat) \<notin> set (active_connections (init_state\<lparr>active_connections := [1, 2]\<rparr>))
   \<and> disconnect 7 (init_state\<lparr>active_connections := [1, 2]\<rparr>)
       = (Inl ValueError, init_state\<lparr>active_connections := [1, 2]\<rparr>)"
proof -
  have h: "(7::nat) \<notin> set (active_connections (init_state\<lparr>active_connections := [1, 2]\<rparr>))"
    by simp
  from disconnect_absent_raises [OF h] h show ?thesis by blast
qed

subsection \<open>Broadcast when a delivery fails\<close>

text \<open>
  Claim C2 says that when delivery to connection \<open>k\<close> fails, every other connection still
  receives the message and \<open>k\<close> is absent from the registry afterwards. With connections
  1, 2 and 3 registered and the write to connection 2 raising, \<^verbatim>\<open>broadcast\<close> raises
  that exception: only connection 1 has received the message, connection 3 has not, and
  connection 2 is still registered.
\<close>

theorem broadcast_failure_counterexample:
  "fst (broadcast (\<lambda>c. if c = 2 then Some RuntimeError else None)
          (JObj [(''type'', JStr ''order_update''), (''status'', JStr ''Accepted'')])
          (init_state\<lparr>active_connections := [1, 2, 3]\<rparr>)) = Inl RuntimeError
   \<and> sent (snd (broadcast (\<lambda>c. if c = 2 then Some RuntimeError else None)
          (JObj [(''type'', JStr ''order_update''), (''status'', JStr ''Accepted'')])
          (init_state\<lparr>active_connections := [1, 2, 3]\<rparr>)))
      = [(1, JObj [(''type'', JStr ''order_update''), (''status'', JStr ''Accepted'')])]
   \<and> active_connections (snd (broadcast (\<lambda>c. if c = 2 then Some RuntimeError else None)
          (JObj [(''type'', JStr ''order_update''), (''status'', JStr ''Accepted'')])
          (init_state\<lparr>active_connections := [1, 2, 3]\<rparr>))) = [1, 2, 3]"
  by (simp add: broadcast_def send_json_def init_state_def)

text \<open>
  C2, as the code has it: when the registry is \<open>pre @ k # post\<close>, delivery succeeds for
  the connections of \<open>pre\<close> and fails with \<open>e\<close> for \<open>k\<close>, then \<^verbatim>\<open>broadcast\<close> raises
  \<open>e\<close>; exactly the connections of \<open>pre\<close>, those registered before \<open>k\<close>, have received
  the message; nothing is sent to \<open>k\<close> or to the connections after it; and the registry
  is unchanged, so \<open>k\<close> remains registered.
\<close>

theorem broadcast_stops_at_failure:
  assumes "active_connections s = pre @ k # post"
    and "\<forall>c\<in>set pre. tr c = None"
    and "tr k = Some e"
  shows "broadcast tr m s =
           (Inl e, s\<lparr>broadcasts := broadcasts s @ [m], sent := sent s @ map (\<lambda>c. (c, m)) pre\<rparr>)"
  using broadcast_loop_first_failure [OF assms(2,3), of m post "s\<lparr>broadcasts := broadcasts s @ [m]\<rparr>"]
  by (simp add: broadcast_def assms(1))

theorem broadcast_stops_at_failure_witness:
  "broadcast (\<lambda>c. if c = 2 then Some RuntimeError else None)
      (JObj [(''type'', JStr ''order_update''), (''status'', JStr ''Accepted'')])
      (init_state\<lparr>active_connections := [1, 2, 3]\<rparr>)
   = (Inl RuntimeError,
      init_state\<lparr>active_connections := [1, 2, 3],
        broadcasts := [JObj [(''type'', JStr ''order_update''), (''status'', JStr ''Accepted'')]],
        sent := [(1, JObj [(''type'', JStr ''order_update''), (''status'', JStr ''Accepted'')])]\<rparr>)"
proof -
  have h1: "active_connections (init_state\<lparr>active_connections := [1, 2, 3]\<rparr>) = [1] @ 2 # [3]"
    by simp
  have h2: "\<forall>c\<in>set [1::nat]. (\<lambda>c. if c = 2 then Some RuntimeError else None) c = None"
    by simp
  have h3: "(\<lambda>c::nat. if c = 2 then Some RuntimeError else None) 2 = Some RuntimeError"
    by simp
  from broadcast_stops_at_failure [OF h1 h2 h3] show ?thesis
    by (simp add: init_state_def)
qed

subsection \<open>Location updates\<close>

text \<open>
  Claim C1 says that a \<^verbatim>\<open>location_update\<close> whose vendor id is not a key of the vendor
  table leaves the table unchanged but is still broadcast to every registered connection.
  In the handler the call of \<^verbatim>\<open>broadcast\<close> stands inside
  \<^verbatim>\<open>if vendor_id in VENDORS\<close>: with connections 1 and 2 registered and every write
  succeeding, an update for the unknown vendor \<^verbatim>\<open>v9\<close> is sent to nobody and
  \<^verbatim>\<open>broadcast\<close> is not called.
\<close>

theorem location_update_unknown_vendor_counterexample:
  "sent (snd (handle_message (\<lambda>c. None)
          (JObj [(''type'', JStr ''location_update''), (''id'', JStr ''v9''),
                 (''lat'', JFloat 28.62), (''lng'', JFloat 77.21)])
          (init_state\<lparr>active_connections := [1, 2]\<rparr>))) = []
   \<and> broadcasts (snd (handle_message (\<lambda>c. None)
          (JObj [(''type'', JStr ''location_update''), (''id'', JStr ''v9''),
                 (''lat'', JFloat 28.62), (''lng'', JFloat 77.21)])
          (init_state\<lparr>active_connections := [1, 2]\<rparr>))) = []"
  by (simp add: handle_message_def subscript_def in_VENDORS_def init_state_def VENDORS0_def)

text \<open>
  C1, as the code has it: handling a \<^verbatim>\<open>location_update\<close> whose vendor id is not a key
  of the vendor table returns normally and leaves the whole state unchanged: the vendor
  table is as it was, and no message is broadcast or sent to any connection.
\<close>

theorem location_update_unknown_vendor:
  assumes "subscript data ''type'' = Inr (JStr ''location_update'')"
    and "subscript data ''id'' = Inr (JStr k)"
    and "k \<notin> dom (VENDORS s)"
  shows "handle_message tr data s = (Inr (), s)"
  using assms by (simp add: handle_message_def in_VENDORS_def domIff)

theorem location_update_unknown_vendor_witness:
  "''v9'' \<notin> dom (VENDORS (init_state\<lparr>active_connections := [1, 2]\<rparr>))
   \<and> handle_message (\<lambda>c. None)
        (JObj [(''type'', JStr ''location_update''), (''id'', JStr ''v9''),
               (''lat'', JFloat 28.62), (''lng'', JFloat 77.21)])
        (init_state\<lparr>active_connections := [1, 2]\<rparr>)
      = (Inr (), init_state\<lparr>active_connections := [1, 2]\<rparr>)"
proof -
  let ?data = "JObj [(''type'', JStr ''location_update''), (''id'', JStr ''v9''),
                     (''lat'', JFloat 28.62), (''lng'', JFloat 77.21)]"
  have h1: "subscript ?data ''type'' = Inr (JStr ''location_update'')"
    by (simp add: subscript_def)
  have h2: "subscript ?data ''id'' = Inr (JStr ''v9'')"
    by (simp add: subscript_def)
  have h3: "''v9'' \<notin> dom (VENDORS (init_state\<lparr>active_connections := [1, 2]\<rparr>))"
    by (simp add: init_state_def VENDORS0_def domIff)
  from location_update_unknown_vendor [OF h1 h2 h3, of "\<lambda>c. None"] h3 show ?thesis by blast
qed

text \<open>
  Claim C5 says that a \<^verbatim>\<open>location_update\<close> whose vendor id is a key of the vendor
  table stores the coordinates and is delivered to every registered connection. The
  coordinates are stored, but \<^verbatim>\<open>broadcast\<close> stops at the first write that raises:
  with connections 1 and 2 registered and the write to connection 1 raising, handling an
  update for \<^verbatim>\<open>v1\<close> raises that exception with the new \<^verbatim>\<open>lat\<close> and
  \<^verbatim>\<open>lng\<close> stored, and neither connection has received the message.
\<close>

theorem location_update_failing_write_counterexample:
  "fst (handle_message (\<lambda>c. if c = 1 then Some RuntimeError else None)
          (JObj [(''type'', JStr ''location_update''), (''id'', JStr ''v1''),
                 (''lat'', JFloat 28.62), (''lng'', JFloat 77.21)])
          (init_state\<lparr>active_connections := [1, 2]\<rparr>)) = Inl RuntimeError
   \<and> sent (snd (handle_message (\<lambda>c. if c = 1 then Some RuntimeError else None)
          (JObj [(''type'', JStr ''location_update''), (''id'', JStr ''v1''),
                 (''lat'', JFloat 28.62), (''lng'', JFloat 77.21)])
          (init_state\<lparr>active_connections := [1, 2]\<rparr>))) = []
   \<and> lat (the (VENDORS (snd (handle_message (\<lambda>c. if c = 1 then Some RuntimeError else None)
          (JObj [(''type'', JStr ''location_update''), (''id'', JStr ''v1''),
                 (''lat'', JFloat 28.62), (''lng'', JFloat 77.21)])
          (init_state\<lparr>active_connections := [1, 2]\<rparr>))) ''v1'')) = JFloat 28.62
   \<and> lng (the (VENDORS (snd (handle_message (\<lambda>c. if c = 1 then Some RuntimeError else None)
          (JObj [(''type'', JStr ''location_update''), (''id'', JStr ''v1''),
                 (''lat'', JFloat 28.62), (''lng'', JFloat 77.21)])
          (init_state\<lparr>active_connections := [1, 2]\<rparr>))) ''v1'')) = JFloat 77.21"
  by (simp add: handle_message_def subscript_def in_VENDORS_def set_lat_def set_lng_def
      broadcast_def send_json_def init_state_def VENDORS0_def)

text \<open>
  C5, as the code has it: a \<^verbatim>\<open>location_update\<close> whose vendor id \<open>k\<close> is a key of the
  vendor table, carrying the fields \<^verbatim>\<open>lat\<close> and \<^verbatim>\<open>lng\<close>, sets the stored
  \<^verbatim>\<open>lat\<close> and \<^verbatim>\<open>lng\<close> of vendor \<open>k\<close> to exactly those values, whatever the
  writes do (every other field and every other vendor as before). When no write raises, the
  received message \<open>data\<close> itself is delivered once to every registered connection, in
  registry order, and so to the sender if it is registered, as it is inside its handler
  (\<open>connect_registers\<close>, \<open>handler_loop_registry\<close>). When the write to connection \<open>c\<close> is
  the first to raise, with \<open>e\<close>, the connections registered before \<open>c\<close> have received
  \<open>data\<close>, no other has, and handling the message raises \<open>e\<close>.
\<close>

theorem location_update_known_vendor:
  assumes "subscript data ''type'' = Inr (JStr ''location_update'')"
    and "subscript data ''id'' = Inr (JStr k)"
    and "VENDORS s k = Some v"
    and "subscript data ''lat'' = Inr new_lat"
    and "subscript data ''lng'' = Inr new_lng"
  shows "VENDORS (snd (handle_message tr data s))
           = (VENDORS s)(k \<mapsto> v\<lparr>lat := new_lat, lng := new_lng\<rparr>)
         \<and> ((\<forall>x\<in>set (active_connections s). tr x = None) \<longrightarrow>
              handle_message tr data s =
                (Inr (), s\<lparr>VENDORS := (VENDORS s)(k \<mapsto> v\<lparr>lat := new_lat, lng := new_lng\<rparr>),
                            broadcasts := broadcasts s @ [data],
                            sent := sent s @ map (\<lambda>x. (x, data)) (active_connections s)\<rparr>)
              \<and> (sender \<in> set (active_connections s) \<longrightarrow>
                   (sender, data) \<in> set (sent (snd (handle_message tr data s)))))
         \<and> (active_connections s = pre @ c # post \<and> (\<forall>x\<in>set pre. tr x = None) \<and> tr c = Some e
              \<longrightarrow>
              handle_message tr data s =
                (Inl e, s\<lparr>VENDORS := (VENDORS s)(k \<mapsto> v\<lparr>lat := new_lat, lng := new_lng\<rparr>),
                           broadcasts := broadcasts s @ [data],
                           sent := sent s @ map (\<lambda>x. (x, data)) pre\<rparr>))"
proof -
  define s2 where "s2 = s\<lparr>VENDORS := (VENDORS s)(k \<mapsto> v\<lparr>lat := new_lat, lng := new_lng\<rparr>)\<rparr>"
  define s3 where "s3 = s2\<lparr>broadcasts := broadcasts s2 @ [data]\<rparr>"
  have hm: "handle_message tr data s = broadcast_loop tr data (active_connections s) s3"
    using assms
    by (simp add: handle_message_def in_VENDORS_def set_lat_def set_lng_def broadcast_def
        s2_def s3_def)
  have table: "VENDORS (snd (handle_message tr data s))
                 = (VENDORS s)(k \<mapsto> v\<lparr>lat := new_lat, lng := new_lng\<rparr>)"
  proof -
    obtain r s' where r: "broadcast_loop tr data (active_connections s) s3 = (r, s')"
      by (cases "broadcast_loop tr data (active_connections s) s3")
    from broadcast_loop_frame [OF r] show ?thesis
      unfolding hm r by (simp add: s3_def s2_def)
  qed
  have all: "handle_message tr data s =
      (Inr (), s\<lparr>VENDORS := (VENDORS s)(k \<mapsto> v\<lparr>lat := new_lat, lng := new_lng\<rparr>),
                  broadcasts := broadcasts s @ [data],
                  sent := sent s @ map (\<lambda>x. (x, data)) (active_connections s)\<rparr>)"
    if "\<forall>x\<in>set (active_connections s). tr x = None"
    using broadcast_loop_all_delivered [OF that, of data s3]
    by (simp add: hm s3_def s2_def)
  have first: "handle_message tr data s =
      (Inl e, s\<lparr>VENDORS := (VENDORS s)(k \<mapsto> v\<lparr>lat := new_lat, lng := new_lng\<rparr>),
                 broadcasts := broadcasts s @ [data],
                 sent := sent s @ map (\<lambda>x. (x, data)) pre\<rparr>)"
    if "active_connections s = pre @ c # post" "\<forall>x\<in>set pre. tr x = None" "tr c = Some e"
    using broadcast_loop_first_failure [OF that(2,3), of data post s3]
    by (simp add: hm that(1) s3_def s2_def)
  show ?thesis
    using table all first by auto
qed

theorem location_update_known_vendor_witness:
  "VENDORS (init_state\<lparr>active_connections := [1, 2]\<rparr>) ''v1'' = Some (the (VENDORS0 ''v1''))
   \<and> handle_message (\<lambda>c. None)
        (JObj [(''type'', JStr ''location_update''), (''id'', JStr ''v1''),
               (''lat'', JFloat 28.62), (''lng'', JFloat 77.21)])
        (init_state\<lparr>active_connections := [1, 2]\<rparr>)
      = (Inr (),
         init_state\<lparr>active_connections := [1, 2],
           VENDORS := VENDORS0(''v1'' \<mapsto>
              (the (VENDORS0 ''v1''))\<lparr>lat := JFloat 28.62, lng := JFloat 77.21\<rparr>),
           broadcasts := [JObj [(''type'', JStr ''location_update''), (''id'', JStr ''v1''),
                                (''lat'', JFloat 28.62), (''lng'', JFloat 77.21)]],
           sent := [(1, JObj [(''type'', JStr ''location_update''), (''id'', JStr ''v1''),
                              (''lat'', JFloat 28.62), (''lng'', JFloat 77.21)]),
                    (2, JObj [(''type'', JStr ''location_update''), (''id'', JStr ''v1''),
                              (''lat'', JFloat 28.62), (''lng'', JFloat 77.21)])]\<rparr>)
   \<and> handle_message (\<lambda>c. if c = 2 then Some RuntimeError else None)
        (JObj [(''type'', JStr ''location_update''), (''id'', JStr ''v1''),
               (''lat'', JFloat 28.62), (''lng'', JFloat 77.21)])
        (init_state\<lparr>active_connections := [1, 2]\<rparr>)
      = (Inl RuntimeError,
         init_state\<lparr>active_connections := [1, 2],
           VENDORS := VENDORS0(''v1'' \<mapsto>
              (the (VENDORS0 ''v1''))\<lparr>lat := JFloat 28.62, lng := JFloat 77.21\<rparr>),
           broadcasts := [JObj [(''type'', JStr ''location_update''), (''id'', JStr ''v1''),
                                (''lat'', JFloat 28.62), (''lng'', JFloat 77.21)]],
           sent := [(1, JObj [(''type'', JStr ''location_update''), (''id'', JStr ''v1''),
                              (''lat'', JFloat 28.62), (''lng'', JFloat 77.21)])]\<rparr>)"
proof -
  let ?data = "JObj [(''type'', JStr ''location_update''), (''id'', JStr ''v1''),
                     (''lat'', JFloat 28.62), (''lng'', JFloat 77.21)]"
  let ?s = "init_state\<lparr>active_connections := [1, 2]\<rparr>"
  let ?bad = "\<lambda>c::nat. if c = 2 then Some RuntimeError else None"
  have h1: "subscript ?data ''type'' = Inr (JStr ''location_update'')"
    by (simp add: subscript_def)
  have h2: "subscript ?data ''id'' = Inr (JStr ''v1'')"
    by (simp add: subscript_def)
  have h3: "VENDORS ?s ''v1'' = Some (the (VENDORS0 ''v1''))"
    by (simp add: init_state_def VENDORS0_def)
  have h4: "subscript ?data ''lat'' = Inr (JFloat 28.62)"
    by (simp add: subscript_def)
  have h5: "subscript ?data ''lng'' = Inr (JFloat 77.21)"
    by (simp add: subscript_def)
  have good: "\<forall>x\<in>set (active_connections ?s). (\<lambda>c. None :: exn option) x = None"
    by simp
  have bad: "active_connections ?s = [1] @ 2 # [] \<and> (\<forall>x\<in>set [1]. ?bad x = None)
      \<and> ?bad 2 = Some RuntimeError"
    by simp
  from location_update_known_vendor [OF h1 h2 h3 h4 h5, of "\<lambda>c. None" 1 "[]" 1 "[]" RuntimeError]
    good
  have g: "handle_message (\<lambda>c. None) ?data ?s =
      (Inr (), ?s\<lparr>VENDORS := (VENDORS ?s)(''v1'' \<mapsto>
                      (the (VENDORS0 ''v1''))\<lparr>lat := JFloat 28.62, lng := JFloat 77.21\<rparr>),
                   broadcasts := broadcasts ?s @ [?data],
                   sent := sent ?s @ map (\<lambda>x. (x, ?data)) (active_connections ?s)\<rparr>)"
    by blast
  from location_update_known_vendor [OF h1 h2 h3 h4 h5, of ?bad 1 "[1]" 2 "[]" RuntimeError] bad
  have b: "handle_message ?bad ?data ?s =
      (Inl RuntimeError, ?s\<lparr>VENDORS := (VENDORS ?s)(''v1'' \<mapsto>
                      (the (VENDORS0 ''v1''))\<lparr>lat := JFloat 28.62, lng := JFloat 77.21\<rparr>),
                   broadcasts := broadcasts ?s @ [?data],
                   sent := sent ?s @ map (\<lambda>x. (x, ?data)) [1]\<rparr>)"
    by blast
  from g b h3 show ?thesis
    by (simp add: init_state_def)
qed

subsection \<open>Order placement\<close>

text \<open>
  Claim C7: placing an order against a vendor id that is not a key of the vendor table
  returns the outcome \<^verbatim>\<open>{"status": "Vendor not found"}\<close> and leaves the whole state
  unchanged: no broadcast, nothing sent, the vendor table as it was.
\<close>

theorem place_order_unknown_vendor:
  "vendor_id ord \<notin> dom (VENDORS s) \<Longrightarrow>
   place_order tr entropy ord s = (Inr (JObj [(''status'', JStr ''Vendor not found'')]), s)"
  by (simp add: place_order_def domIff)

theorem place_order_unknown_vendor_witness:
  "''v9'' \<notin> dom (VENDORS (init_state\<lparr>active_connections := [1, 2]\<rparr>))
   \<and> place_order (\<lambda>c. None) 234
        \<lparr>vendor_id = ''v9'', item = ''Masala Chai'', customer_lat = 28.61, customer_lng = 77.2\<rparr>
        (init_state\<lparr>active_connections := [1, 2]\<rparr>)
      = (Inr (JObj [(''status'', JStr ''Vendor not found'')]),
         init_state\<lparr>active_connections := [1, 2]\<rparr>)"
proof -
  have h: "vendor_id \<lparr>vendor_id = ''v9'', item = ''Masala Chai'', customer_lat = 28.61,
              customer_lng = 77.2\<rparr>
           \<notin> dom (VENDORS (init_state\<lparr>active_connections := [1, 2]\<rparr>))"
    by (simp add: init_state_def VENDORS0_def domIff)
  from place_order_unknown_vendor [OF h, of "\<lambda>c. None" 234] h show ?thesis by simp
qed

text \<open>
  Claim C6 says that every order placement against a known vendor id returns a success
  outcome with the order id. \<^verbatim>\<open>place_order\<close> awaits \<^verbatim>\<open>broadcast\<close> before its
  \<^verbatim>\<open>return\<close>: with connections 1 and 2 registered and the write to connection 1
  raising, an order for \<^verbatim>\<open>v1\<close> is appended to the vendor's list, the call raises
  that exception instead of returning an outcome, and no connection has received the
  \<^verbatim>\<open>new_order\<close> message.
\<close>

theorem place_order_failing_write_counterexample:
  "fst (place_order (\<lambda>c. if c = 1 then Some RuntimeError else None) 234
          \<lparr>vendor_id = ''v1'', item = ''Masala Chai'', customer_lat = 28.61, customer_lng = 77.2\<rparr>
          (init_state\<lparr>active_connections := [1, 2]\<rparr>)) = Inl RuntimeError
   \<and> sent (snd (place_order (\<lambda>c. if c = 1 then Some RuntimeError else None) 234
          \<lparr>vendor_id = ''v1'', item = ''Masala Chai'', customer_lat = 28.61, customer_lng = 77.2\<rparr>
          (init_state\<lparr>active_connections := [1, 2]\<rparr>))) = []
   \<and> orders (the (VENDORS (snd (place_order (\<lambda>c. if c = 1 then Some RuntimeError else None) 234
          \<lparr>vendor_id = ''v1'', item = ''Masala Chai'', customer_lat = 28.61, customer_lng = 77.2\<rparr>
          (init_state\<lparr>active_connections := [1, 2]\<rparr>))) ''v1''))
      = [JObj [(''id'', JInt 1234), (''item'', JStr ''Masala Chai''), (''status'', JStr ''Pending''),
               (''lat'', JFloat 28.61), (''lng'', JFloat 77.2)]]"
  by (simp add: place_order_def order_data_of_def orders_append_def broadcast_def send_json_def
      subscript_def randint_def randbelow_def init_state_def VENDORS0_def Let_def)

text \<open>
  C6, as the code has it: placing an order against a vendor id that is a key of the vendor
  table appends exactly one entry, \<^verbatim>\<open>order_data\<close> with status \<^verbatim>\<open>Pending\<close>, to that
  vendor's order list, and calls \<^verbatim>\<open>broadcast\<close> exactly once, with a \<^verbatim>\<open>new_order\<close>
  message that embeds that same \<^verbatim>\<open>order_data\<close> and hence its id; both whatever the
  writes do. When no write raises, the message reaches every registered connection once and
  the call returns \<^verbatim>\<open>{"status": "Order Placed", "order_id": id}\<close> with that id. When
  the write to connection \<open>c\<close> is the first to raise, with \<open>e\<close>, the connections
  registered before \<open>c\<close> have received the message, no other has, and the call raises
  \<open>e\<close> and returns no outcome.
\<close>

theorem place_order_known_vendor:
  assumes "VENDORS s (vendor_id ord) = Some v"
  shows "(let od = order_data_of entropy ord;
              msg = JObj [(''type'', JStr ''new_order''), (''vendor_id'', JStr (vendor_id ord)),
                          (''order'', od)];
              r = place_order tr entropy ord s;
              s1 = s\<lparr>VENDORS := (VENDORS s)(vendor_id ord \<mapsto> v\<lparr>orders := orders v @ [od]\<rparr>),
                     broadcasts := broadcasts s @ [msg]\<rparr>
          in VENDORS (snd r) = (VENDORS s)(vendor_id ord \<mapsto> v\<lparr>orders := orders v @ [od]\<rparr>)
             \<and> subscript od ''status'' = Inr (JStr ''Pending'')
             \<and> subscript od ''id'' = Inr (JInt (randint 1000 9999 entropy))
             \<and> broadcasts (snd r) = broadcasts s @ [msg]
             \<and> ((\<forall>x\<in>set (active_connections s). tr x = None) \<longrightarrow>
                  r = (Inr (JObj [(''status'', JStr ''Order Placed''),
                                  (''order_id'', JInt (randint 1000 9999 entropy))]),
                       s1\<lparr>sent := sent s @ map (\<lambda>x. (x, msg)) (active_connections s)\<rparr>))
             \<and> (active_connections s = pre @ c # post \<and> (\<forall>x\<in>set pre. tr x = None)
                  \<and> tr c = Some e \<longrightarrow>
                  r = (Inl e, s1\<lparr>sent := sent s @ map (\<lambda>x. (x, msg)) pre\<rparr>)))"
proof -
  define od where "od = order_data_of entropy ord"
  define msg where "msg = JObj [(''type'', JStr ''new_order''), (''vendor_id'', JStr (vendor_id ord)),
                          (''order'', od)]"
  define s0 where "s0 = s\<lparr>VENDORS := (VENDORS s)(vendor_id ord \<mapsto> v\<lparr>orders := orders v @ [od]\<rparr>)\<rparr>"
  define s1 where "s1 = s\<lparr>VENDORS := (VENDORS s)(vendor_id ord \<mapsto> v\<lparr>orders := orders v @ [od]\<rparr>),
                     broadcasts := broadcasts s @ [msg]\<rparr>"
  obtain b s2 where b: "broadcast_loop tr msg (active_connections s) s1 = (b, s2)"
    by (cases "broadcast_loop tr msg (active_connections s) s1")
  have bc: "broadcast tr msg s0 = (b, s2)"
    using b by (simp add: broadcast_def s0_def s1_def)
  have id: "subscript od ''id'' = Inr (JInt (randint 1000 9999 entropy))"
    and st: "subscript od ''status'' = Inr (JStr ''Pending'')"
    by (simp_all add: od_def order_data_of_def subscript_def)
  have po: "place_order tr entropy ord s =
      (case b of Inl e \<Rightarrow> (Inl e, s2)
       | Inr _ \<Rightarrow> (Inr (JObj [(''status'', JStr ''Order Placed''),
                                     (''order_id'', JInt (randint 1000 9999 entropy))]), s2))"
    using assms bc id
    by (simp add: place_order_def orders_append_def Let_def od_def [symmetric] msg_def [symmetric]
        s0_def [symmetric] split: sum.splits)
  have snd: "snd (place_order tr entropy ord s) = s2"
    by (simp add: po split: sum.splits)
  from broadcast_loop_frame [OF b]
  have fr: "VENDORS s2 = VENDORS s1" "broadcasts s2 = broadcasts s1" by simp_all
  have all: "place_order tr entropy ord s =
      (Inr (JObj [(''status'', JStr ''Order Placed''),
                  (''order_id'', JInt (randint 1000 9999 entropy))]),
       s1\<lparr>sent := sent s @ map (\<lambda>x. (x, msg)) (active_connections s)\<rparr>)"
    if "\<forall>x\<in>set (active_connections s). tr x = None"
    using broadcast_loop_all_delivered [OF that, of msg s1] b
    by (auto simp: po s1_def)
  have first: "place_order tr entropy ord s =
      (Inl e, s1\<lparr>sent := sent s @ map (\<lambda>x. (x, msg)) pre\<rparr>)"
    if "active_connections s = pre @ c # post" "\<forall>x\<in>set pre. tr x = None" "tr c = Some e"
    using broadcast_loop_first_failure [OF that(2,3), of msg post s1] b
    by (auto simp: po that(1) s1_def)
  have tab: "VENDORS (snd (place_order tr entropy ord s))
      = (VENDORS s)(vendor_id ord \<mapsto> v\<lparr>orders := orders v @ [od]\<rparr>)"
    and log: "broadcasts (snd (place_order tr entropy ord s)) = broadcasts s @ [msg]"
    using fr by (simp_all add: snd s1_def)
  show ?thesis
    unfolding Let_def od_def [symmetric] msg_def [symmetric] s1_def [symmetric]
    using tab log id st all first by blast
qed

theorem place_order_known_vendor_witness:
  "VENDORS (init_state\<lparr>active_connections := [1, 2]\<rparr>) ''v1'' = Some (the (VENDORS0 ''v1''))
   \<and> place_order (\<lambda>c. None) 234
        \<lparr>vendor_id = ''v1'', item = ''Masala Chai'', customer_lat = 28.61, customer_lng = 77.2\<rparr>
        (init_state\<lparr>active_connections := [1, 2]\<rparr>)
      = (Inr (JObj [(''status'', JStr ''Order Placed''), (''order_id'', JInt 1234)]),
         init_state\<lparr>active_connections := [1, 2],
           VENDORS := VENDORS0(''v1'' \<mapsto> (the (VENDORS0 ''v1''))\<lparr>orders :=
              [JObj [(''id'', JInt 1234), (''item'', JStr ''Masala Chai''),
                     (''status'', JStr ''Pending''), (''lat'', JFloat 28.61),
                     (''lng'', JFloat 77.2)]]\<rparr>),
           broadcasts := [JObj [(''type'', JStr ''new_order''), (''vendor_id'', JStr ''v1''),
              (''order'', JObj [(''id'', JInt 1234), (''item'', JStr ''Masala Chai''),
                 (''status'', JStr ''Pending''), (''lat'', JFloat 28.61),
                 (''lng'', JFloat 77.2)])]],
           sent := [(1, JObj [(''type'', JStr ''new_order''), (''vendor_id'', JStr ''v1''),
              (''order'', JObj [(''id'', JInt 1234), (''item'', JStr ''Masala Chai''),
                 (''status'', JStr ''Pending''), (''lat'', JFloat 28.61),
                 (''lng'', JFloat 77.2)])]),
                    (2, JObj [(''type'', JStr ''new_order''), (''vendor_id'', JStr ''v1''),
              (''order'', JObj [(''id'', JInt 1234), (''item'', JStr ''Masala Chai''),
                 (''status'', JStr ''Pending''), (''lat'', JFloat 28.61),
                 (''lng'', JFloat 77.2)])])]\<rparr>)
   \<and> place_order (\<lambda>c. if c = 2 then Some RuntimeError else None) 234
        \<lparr>vendor_id = ''v1'', item = ''Masala Chai'', customer_lat = 28.61, customer_lng = 77.2\<rparr>
        (init_state\<lparr>active_connections := [1, 2]\<rparr>)
      = (Inl RuntimeError,
         init_state\<lparr>active_connections := [1, 2],
           VENDORS := VENDORS0(''v1'' \<mapsto> (the (VENDORS0 ''v1''))\<lparr>orders :=
              [JObj [(''id'', JInt 1234), (''item'', JStr ''Masala Chai''),
                     (''status'', JStr ''Pending''), (''lat'', JFloat 28.61),
                     (''lng'', JFloat 77.2)]]\<rparr>),
           broadcasts := [JObj [(''type'', JStr ''new_order''), (''vendor_id'', JStr ''v1''),
              (''order'', JObj [(''id'', JInt 1234), (''item'', JStr ''Masala Chai''),
                 (''status'', JStr ''Pending''), (''lat'', JFloat 28.61),
                 (''lng'', JFloat 77.2)])]],
           sent := [(1, JObj [(''type'', JStr ''new_order''), (''vendor_id'', JStr ''v1''),
              (''order'', JObj [(''id'', JInt 1234), (''item'', JStr ''Masala Chai''),
                 (''status'', JStr ''Pending''), (''lat'', JFloat 28.61),
                 (''lng'', JFloat 77.2)])])]\<rparr>)"
proof -
  let ?ord = "\<lparr>vendor_id = ''v1'', item = ''Masala Chai'', customer_lat = 28.61,
                customer_lng = 77.2\<rparr>"
  let ?s = "init_state\<lparr>active_connections := [1, 2]\<rparr>"
  let ?bad = "\<lambda>c::nat. if c = 2 then Some RuntimeError else None"
  have h: "VENDORS ?s (vendor_id ?ord) = Some (the (VENDORS0 ''v1''))"
    by (simp add: init_state_def VENDORS0_def)
  have r: "randint 1000 9999 234 = 1234"
    by (simp add: randint_def randbelow_def)
  have v: "orders (the (VENDORS0 ''v1'')) = []"
    by (simp add: VENDORS0_def)
  have good: "\<forall>x\<in>set (active_connections ?s). (\<lambda>c. None :: exn option) x = None"
    by simp
  have bad: "active_connections ?s = [1] @ 2 # [] \<and> (\<forall>x\<in>set [1]. ?bad x = None)
      \<and> ?bad 2 = Some RuntimeError"
    by simp
  from place_order_known_vendor [OF h, of 234 "\<lambda>c. None" "[]" 1 "[]" RuntimeError] good
  have g: "place_order (\<lambda>c. None) 234 ?ord ?s =
      (Inr (JObj [(''status'', JStr ''Order Placed''), (''order_id'', JInt 1234)]),
       ?s\<lparr>VENDORS := (VENDORS ?s)(''v1'' \<mapsto> (the (VENDORS0 ''v1''))\<lparr>orders :=
              orders (the (VENDORS0 ''v1'')) @ [order_data_of 234 ?ord]\<rparr>),
           broadcasts := broadcasts ?s @ [JObj [(''type'', JStr ''new_order''),
              (''vendor_id'', JStr ''v1''), (''order'', order_data_of 234 ?ord)]],
           sent := sent ?s @ map (\<lambda>x. (x, JObj [(''type'', JStr ''new_order''),
              (''vendor_id'', JStr ''v1''), (''order'', order_data_of 234 ?ord)]))
              (active_connections ?s)\<rparr>)"
    by (simp add: Let_def r)
  from place_order_known_vendor [OF h, of 234 ?bad "[1]" 2 "[]" RuntimeError] bad
  have b: "place_order ?bad 234 ?ord ?s =
      (Inl RuntimeError,
       ?s\<lparr>VENDORS := (VENDORS ?s)(''v1'' \<mapsto> (the (VENDORS0 ''v1''))\<lparr>orders :=
              orders (the (VENDORS0 ''v1'')) @ [order_data_of 234 ?ord]\<rparr>),
           broadcasts := broadcasts ?s @ [JObj [(''type'', JStr ''new_order''),
              (''vendor_id'', JStr ''v1''), (''order'', order_data_of 234 ?ord)]],
           sent := sent ?s @ map (\<lambda>x. (x, JObj [(''type'', JStr ''new_order''),
              (''vendor_id'', JStr ''v1''), (''order'', order_data_of 234 ?ord)])) [1]\<rparr>)"
    by (simp add: Let_def r)
  from g b h show ?thesis
    by (simp add: order_data_of_def r v init_state_def)
qed

text \<open>
  Claim C10: placing an order against a known vendor id changes nothing of the shared state
  but that vendor's order list, which gains \<^verbatim>\<open>order_data\<close> at its end: the vendor's
  \<^verbatim>\<open>id\<close>, \<^verbatim>\<open>name\<close>, \<^verbatim>\<open>lat\<close>, \<^verbatim>\<open>lng\<close>, \<^verbatim>\<open>icon\<close> and
  \<^verbatim>\<open>category\<close>, every other vendor's entry, the menu table and the registry of
  connections are as before. This holds whether or not a write raises during the broadcast.
\<close>

theorem place_order_frame:
  assumes "VENDORS s (vendor_id ord) = Some v"
  shows "\<exists>v'. VENDORS (snd (place_order tr entropy ord s)) (vendor_id ord) = Some v'
           \<and> orders v' = orders v @ [order_data_of entropy ord]
           \<and> id' v' = id' v \<and> name v' = name v \<and> lat v' = lat v \<and> lng v' = lng v
           \<and> icon v' = icon v \<and> category v' = category v
           \<and> (\<forall>k. k \<noteq> vendor_id ord \<longrightarrow>
                 VENDORS (snd (place_order tr entropy ord s)) k = VENDORS s k)
           \<and> MENU (snd (place_order tr entropy ord s)) = MENU s
           \<and> active_connections (snd (place_order tr entropy ord s)) = active_connections s"
proof -
  define od where "od = order_data_of entropy ord"
  define msg where "msg = JObj [(''type'', JStr ''new_order''), (''vendor_id'', JStr (vendor_id ord)),
                          (''order'', od)]"
  define s1 where "s1 = s\<lparr>VENDORS := (VENDORS s)(vendor_id ord \<mapsto> v\<lparr>orders := orders v @ [od]\<rparr>)\<rparr>"
  obtain b s2 where b: "broadcast tr msg s1 = (b, s2)" by (cases "broadcast tr msg s1")
  have "snd (place_order tr entropy ord s) = s2"
    using assms b
    by (simp add: place_order_def orders_append_def Let_def od_def [symmetric] msg_def [symmetric]
        s1_def [symmetric] split: sum.splits)
  moreover from broadcast_frame [OF b]
  have "VENDORS s2 = VENDORS s1" "MENU s2 = MENU s1" "active_connections s2 = active_connections s1"
    by simp_all
  ultimately show ?thesis
    by (simp add: s1_def od_def)
qed

theorem place_order_frame_witness:
  "VENDORS (init_state\<lparr>active_connections := [1, 2]\<rparr>) ''v1'' = Some (the (VENDORS0 ''v1''))
   \<and> VENDORS (snd (place_order (\<lambda>c. if c = 1 then Some RuntimeError else None) 234
        \<lparr>vendor_id = ''v1'', item = ''Masala Chai'', customer_lat = 28.61, customer_lng = 77.2\<rparr>
        (init_state\<lparr>active_connections := [1, 2]\<rparr>))) ''v2'' = VENDORS0 ''v2''
   \<and> MENU (snd (place_order (\<lambda>c. if c = 1 then Some RuntimeError else None) 234
        \<lparr>vendor_id = ''v1'', item = ''Masala Chai'', customer_lat = 28.61, customer_lng = 77.2\<rparr>
        (init_state\<lparr>active_connections := [1, 2]\<rparr>))) = MENU0
   \<and> active_connections (snd (place_order (\<lambda>c. if c = 1 then Some RuntimeError else None) 234
        \<lparr>vendor_id = ''v1'', item = ''Masala Chai'', customer_lat = 28.61, customer_lng = 77.2\<rparr>
        (init_state\<lparr>active_connections := [1, 2]\<rparr>))) = [1, 2]"
proof -
  have h: "VENDORS (init_state\<lparr>active_connections := [1, 2]\<rparr>)
      (vendor_id \<lparr>vendor_id = ''v1'', item = ''Masala Chai'', customer_lat = 28.61,
         customer_lng = 77.2\<rparr>) = Some (the (VENDORS0 ''v1''))"
    by (simp add: init_state_def VENDORS0_def)
  from place_order_frame [OF h, of "\<lambda>c. if c = 1 then Some RuntimeError else None" 234] h
  show ?thesis by (auto simp: init_state_def)
qed

text \<open>
  Claim C9: the order id returned by a successful order placement, which is the id of the
  \<^verbatim>\<open>order_data\<close> it built, is an integer between 1000 and 9999 inclusive.
\<close>

theorem place_order_id_range:
  assumes "fst (place_order tr entropy ord s) = Inr r"
    and "subscript r ''status'' = Inr (JStr ''Order Placed'')"
  shows "\<exists>i. subscript r ''order_id'' = Inr (JInt i)
             \<and> subscript (order_data_of entropy ord) ''id'' = Inr (JInt i)
             \<and> 1000 \<le> i \<and> i \<le> 9999"
  using place_order_success [OF assms] randint_order_range [of entropy]
  by (simp add: subscript_def order_data_of_def)

theorem place_order_id_range_witness:
  "fst (place_order (\<lambda>c. None) 234
         \<lparr>vendor_id = ''v1'', item = ''Masala Chai'', customer_lat = 28.61, customer_lng = 77.2\<rparr>
         (init_state\<lparr>active_connections := [1, 2]\<rparr>))
     = Inr (JObj [(''status'', JStr ''Order Placed''), (''order_id'', JInt 1234)])
   \<and> (\<exists>i. subscript (JObj [(''status'', JStr ''Order Placed''), (''order_id'', JInt 1234)])
             ''order_id'' = Inr (JInt i)
          \<and> subscript (order_data_of 234
               \<lparr>vendor_id = ''v1'', item = ''Masala Chai'', customer_lat = 28.61,
                  customer_lng = 77.2\<rparr>) ''id'' = Inr (JInt i)
          \<and> 1000 \<le> i \<and> i \<le> 9999)"
proof -
  have h1: "fst (place_order (\<lambda>c. None) 234
         \<lparr>vendor_id = ''v1'', item = ''Masala Chai'', customer_lat = 28.61, customer_lng = 77.2\<rparr>
         (init_state\<lparr>active_connections := [1, 2]\<rparr>))
     = Inr (JObj [(''status'', JStr ''Order Placed''), (''order_id'', JInt 1234)])"
    by (simp add: place_order_def order_data_of_def orders_append_def broadcast_def send_json_def
        subscript_def randint_def randbelow_def init_state_def VENDORS0_def Let_def)
  have h2: "subscript (JObj [(''status'', JStr ''Order Placed''), (''order_id'', JInt 1234)])
      ''status'' = Inr (JStr ''Order Placed'')"
    by (simp add: subscript_def)
  from place_order_id_range [OF h1 h2] h1 show ?thesis by blast
qed

text \<open>
  Claim C4 says that each successful placement generates an order id different from every
  id generated before. The id is the number \<^verbatim>\<open>random.randint(1000, 9999)\<close> returns and
  nothing compares it with earlier ids: when the generator yields the same number twice,
  an order for \<^verbatim>\<open>v1\<close> and the next order, for \<^verbatim>\<open>v2\<close>, both get the id 1234,
  while the first order is still in the list of \<^verbatim>\<open>v1\<close>.
\<close>

theorem order_id_repeats_counterexample:
  "fst (place_order (\<lambda>c. None) 234
         \<lparr>vendor_id = ''v1'', item = ''Masala Chai'', customer_lat = 28.61, customer_lng = 77.2\<rparr>
         init_state)
     = Inr (JObj [(''status'', JStr ''Order Placed''), (''order_id'', JInt 1234)])
   \<and> fst (place_order (\<lambda>c. None) 234
         \<lparr>vendor_id = ''v2'', item = ''Fries'', customer_lat = 28.6, customer_lng = 77.21\<rparr>
         (snd (place_order (\<lambda>c. None) 234
            \<lparr>vendor_id = ''v1'', item = ''Masala Chai'', customer_lat = 28.61,
               customer_lng = 77.2\<rparr>
            init_state)))
     = Inr (JObj [(''status'', JStr ''Order Placed''), (''order_id'', JInt 1234)])
   \<and> orders (the (VENDORS (snd (place_order (\<lambda>c. None) 234
         \<lparr>vendor_id = ''v1'', item = ''Masala Chai'', customer_lat = 28.61, customer_lng = 77.2\<rparr>
         init_state)) ''v1''))
     = [JObj [(''id'', JInt 1234), (''item'', JStr ''Masala Chai''), (''status'', JStr ''Pending''),
              (''lat'', JFloat 28.61), (''lng'', JFloat 77.2)]]"
  by (simp add: place_order_def order_data_of_def orders_append_def broadcast_def
      subscript_def randint_def randbelow_def init_state_def VENDORS0_def Let_def)

text \<open>
  C4, as the code has it: the order id of a successful placement is the number drawn by
  \<^verbatim>\<open>random.randint(1000, 9999)\<close>, whatever the state and the orders placed before; two
  successful placements get the same id exactly when their draws are the same number.
\<close>

theorem order_id_repeats_iff:
  assumes "fst (place_order tr1 e1 o1 s1) = Inr r1"
    and "subscript r1 ''status'' = Inr (JStr ''Order Placed'')"
    and "fst (place_order tr2 e2 o2 s2) = Inr r2"
    and "subscript r2 ''status'' = Inr (JStr ''Order Placed'')"
  shows "(subscript r1 ''order_id'' = subscript r2 ''order_id'')
         \<longleftrightarrow> (randint 1000 9999 e1 = randint 1000 9999 e2)"
  using place_order_success [OF assms(1,2)] place_order_success [OF assms(3,4)]
  by (simp add: subscript_def)

theorem order_id_repeats_iff_witness:
  "fst (place_order (\<lambda>c. None) 234
         \<lparr>vendor_id = ''v1'', item = ''Masala Chai'', customer_lat = 28.61, customer_lng = 77.2\<rparr>
         init_state)
     = Inr (JObj [(''status'', JStr ''Order Placed''), (''order_id'', JInt 1234)])
   \<and> fst (place_order (\<lambda>c. None) 235
         \<lparr>vendor_id = ''v2'', item = ''Fries'', customer_lat = 28.6, customer_lng = 77.21\<rparr>
         init_state)
     = Inr (JObj [(''status'', JStr ''Order Placed''), (''order_id'', JInt 1235)])
   \<and> ((subscript (JObj [(''status'', JStr ''Order Placed''), (''order_id'', JInt 1234)]) ''order_id''
      = subscript (JObj [(''status'', JStr ''Order Placed''), (''order_id'', JInt 1235)]) ''order_id'')
   \<longleftrightarrow> (randint 1000 9999 234 = randint 1000 9999 235))"
proof -
  have a1: "fst (place_order (\<lambda>c. None) 234
         \<lparr>vendor_id = ''v1'', item = ''Masala Chai'', customer_lat = 28.61, customer_lng = 77.2\<rparr>
         init_state)
     = Inr (JObj [(''status'', JStr ''Order Placed''), (''order_id'', JInt 1234)])"
    by (simp add: place_order_def order_data_of_def orders_append_def broadcast_def
        subscript_def randint_def randbelow_def init_state_def VENDORS0_def Let_def)
  have a2: "subscript (JObj [(''status'', JStr ''Order Placed''), (''order_id'', JInt 1234)])
      ''status'' = Inr (JStr ''Order Placed'')"
    by (simp add: subscript_def)
  have b1: "fst (place_order (\<lambda>c. None) 235
         \<lparr>vendor_id = ''v2'', item = ''Fries'', customer_lat = 28.6, customer_lng = 77.21\<rparr>
         init_state)
     = Inr (JObj [(''status'', JStr ''Order Placed''), (''order_id'', JInt 1235)])"
    by (simp add: place_order_def order_data_of_def orders_append_def broadcast_def
        subscript_def randint_def randbelow_def init_state_def VENDORS0_def Let_def)
  have b2: "subscript (JObj [(''status'', JStr ''Order Placed''), (''order_id'', JInt 1235)])
      ''status'' = Inr (JStr ''Order Placed'')"
    by (simp add: subscript_def)
  from order_id_repeats_iff [OF a1 a2 b1 b2] a1 b1 show ?thesis by blast
qed

subsection \<open>The end of a channel handler\<close>

text \<open>
  Claim C8 says that on every exit path of the handler, error paths included, its
  connection is removed from the registry. The \<^verbatim>\<open>except\<close> clause names
  \<^verbatim>\<open>WebSocketDisconnect\<close> only: connection 3 sends a message without the key
  \<^verbatim>\<open>type\<close>, the handler ends with \<^verbatim>\<open>KeyError\<close>, and connection 3 is still
  registered.
\<close>

theorem websocket_endpoint_exit_counterexample:
  "fst (websocket_endpoint None 3 [Receive (JObj [(''kind'', JStr ''ping'')]) (\<lambda>c. None)]
          (init_state\<lparr>active_connections := [1, 2]\<rparr>)) = Some (Raised (KeyError ''type''))
   \<and> 3 \<in> set (active_connections
          (snd (websocket_endpoint None 3 [Receive (JObj [(''kind'', JStr ''ping'')]) (\<lambda>c. None)]
             (init_state\<lparr>active_connections := [1, 2]\<rparr>))))"
  by (simp add: websocket_endpoint_def connect_def handle_message_def subscript_def)

text \<open>
  C8, as the code has it: for a connection that was not registered before and whose
  handshake succeeds, when the loop ends with \<^verbatim>\<open>WebSocketDisconnect\<close> the handler
  removes its connection, leaving the registry as it was before the handler started, and
  returns; when the loop ends with any other exception the handler ends with that
  exception and its connection stays in the registry.
\<close>

theorem websocket_endpoint_exit:
  assumes "websocket \<notin> set (active_connections s)"
    and "handler_loop evs (snd (connect None websocket s)) = (Some e, s2)"
  shows "websocket_endpoint None websocket evs s =
           (if e = WebSocketDisconnect
            then (Some Returned, s2\<lparr>active_connections := active_connections s\<rparr>)
            else (Some (Raised e), s2))
         \<and> active_connections s2 = active_connections s @ [websocket]"
proof -
  from handler_loop_registry [OF assms(2)]
  have reg: "active_connections s2 = active_connections s @ [websocket]"
    by (simp add: connect_def)
  have "disconnect websocket s2 = (Inr (), s2\<lparr>active_connections := active_connections s\<rparr>)"
    by (simp add: disconnect_def reg list_remove_append_fresh [OF assms(1)])
  then show ?thesis
    using assms(2) reg
    by (cases e) (simp_all add: websocket_endpoint_def connect_def)
qed

theorem websocket_endpoint_exit_witness:
  "(3::nat) \<notin> set (active_connections (init_state\<lparr>active_connections := [1, 2]\<rparr>))
   \<and> websocket_endpoint None 3
        [Receive (JObj [(''type'', JStr ''order_update''), (''status'', JStr ''Accepted'')])
           (\<lambda>c. None),
         ReceiveRaises WebSocketDisconnect]
        (init_state\<lparr>active_connections := [1, 2]\<rparr>)
      = (Some Returned,
         init_state\<lparr>active_connections := [1, 2],
           broadcasts := [JObj [(''type'', JStr ''order_update''), (''status'', JStr ''Accepted'')]],
           sent := [(1, JObj [(''type'', JStr ''order_update''), (''status'', JStr ''Accepted'')]),
                    (2, JObj [(''type'', JStr ''order_update''), (''status'', JStr ''Accepted'')]),
                    (3, JObj [(''type'', JStr ''order_update''), (''status'', JStr ''Accepted'')])]\<rparr>)"
proof -
  let ?m = "JObj [(''type'', JStr ''order_update''), (''status'', JStr ''Accepted'')]"
  let ?s = "init_state\<lparr>active_connections := [1, 2]\<rparr>"
  have h1: "(3::nat) \<notin> set (active_connections ?s)"
    by simp
  have h2: "handler_loop [Receive ?m (\<lambda>c. None), ReceiveRaises WebSocketDisconnect]
              (snd (connect None 3 ?s))
            = (Some WebSocketDisconnect,
               init_state\<lparr>active_connections := [1, 2, 3], broadcasts := [?m],
                 sent := [(1, ?m), (2, ?m), (3, ?m)]\<rparr>)"
    by (simp add: connect_def handle_message_def subscript_def broadcast_def send_json_def
        init_state_def)
  from websocket_endpoint_exit [OF h1 h2] h1 show ?thesis
    by (simp add: init_state_def)
qed

end
